theory Spec2Isabelle
  imports Complex_Main
begin

section \<open>Vectors\<close>

text \<open>
  The source instantiates \<^verbatim>\<open>Vec3<T>\<close> at \<^verbatim>\<open>float\<close> only
  (\<^verbatim>\<open>typedef Vec3<float> Vec3f\<close>). A \<^verbatim>\<open>float\<close> is idealised as a
  \<^typ>\<open>real\<close> throughout: rounding and overflow are outside the model. The NaN that
  \<^verbatim>\<open>acos\<close> returns outside \<open>[-1, 1]\<close> is part of the model of \<^verbatim>\<open>getColor\<close>.
  The members \<^verbatim>\<open>x\<close>, \<^verbatim>\<open>y\<close>, \<^verbatim>\<open>z\<close> are the selectors
  \<open>vx\<close>, \<open>vy\<close>, \<open>vz\<close>.
\<close>

datatype Vec3f = Vec3 (vx: real) (vy: real) (vz: real)

text \<open>The constructor \<^verbatim>\<open>Vec3(T xx)\<close>, which copies one scalar to the three members.\<close>

definition Vec3_all :: "real \<Rightarrow> Vec3f" where
  "Vec3_all xx = Vec3 xx xx xx"

text \<open>\<^verbatim>\<open>operator * (const T &f)\<close>\<close>

definition vscale :: "Vec3f \<Rightarrow> real \<Rightarrow> Vec3f" where
  "vscale v f = Vec3 (vx v * f) (vy v * f) (vz v * f)"

text \<open>\<^verbatim>\<open>operator * (const Vec3<T> &v)\<close>, component by component.\<close>

definition vmul :: "Vec3f \<Rightarrow> Vec3f \<Rightarrow> Vec3f" where
  "vmul a v = Vec3 (vx a * vx v) (vy a * vy v) (vz a * vz v)"

definition dot :: "Vec3f \<Rightarrow> Vec3f \<Rightarrow> real" where
  "dot a v = vx a * vx v + vy a * vy v + vz a * vz v"

definition vsub :: "Vec3f \<Rightarrow> Vec3f \<Rightarrow> Vec3f" where
  "vsub a v = Vec3 (vx a - vx v) (vy a - vy v) (vz a - vz v)"

definition vadd :: "Vec3f \<Rightarrow> Vec3f \<Rightarrow> Vec3f" where
  "vadd a v = Vec3 (vx a + vx v) (vy a + vy v) (vz a + vz v)"

definition vneg :: "Vec3f \<Rightarrow> Vec3f" where
  "vneg a = Vec3 (- vx a) (- vy a) (- vz a)"

definition length2 :: "Vec3f \<Rightarrow> real" where
  "length2 a = vx a * vx a + vy a * vy a + vz a * vz a"

text \<open>
  \<^verbatim>\<open>normalize\<close> changes the vector in place and returns it; the model returns the
  new value.
\<close>

definition normalize :: "Vec3f \<Rightarrow> Vec3f" where
  "normalize v =
     (let nor2 = length2 v in
      if nor2 > 0 then
        (let invNor = 1 / sqrt nor2 in
         Vec3 (vx v * invNor) (vy v * invNor) (vz v * invNor))
      else v)"

text \<open>
  The same function with the one division of its body checked: a zero divisor is the
  error value, so that "the division is never by zero" is a statement about results.
\<close>

datatype arith_error = DivisionByZero

definition checked_div :: "real \<Rightarrow> real \<Rightarrow> arith_error + real" where
  "checked_div a b = (if b = 0 then Inl DivisionByZero else Inr (a / b))"

definition normalize_checked :: "Vec3f \<Rightarrow> arith_error + Vec3f" where
  "normalize_checked v =
     (let nor2 = length2 v in
      if nor2 > 0 then
        (case checked_div 1 (sqrt nor2) of
           Inl e \<Rightarrow> Inl e
         | Inr invNor \<Rightarrow> Inr (Vec3 (vx v * invNor) (vy v * invNor) (vz v * invNor)))
      else Inr v)"

section \<open>Spheres\<close>

text \<open>
  A texture is the grid \<^verbatim>\<open>loadTexture\<close> returns: a list of rows, each a list of
  colours, read as \<^verbatim>\<open>texture[y][x]\<close>. The members \<^verbatim>\<open>textureWidth\<close> and
  \<^verbatim>\<open>textureHeight\<close> are C \<^verbatim>\<open>int\<close>s.
\<close>

record Sphere =
  center :: Vec3f
  radius :: real
  radius2 :: real
  surfaceColor :: Vec3f
  emissionColor :: Vec3f
  transparency :: real
  reflection :: real
  texture :: "Vec3f list list"
  textureWidth :: int
  textureHeight :: int

text \<open>
  The constructor with an empty \<^verbatim>\<open>textureFile\<close>: the texture stays empty, and the two
  dimensions, which the constructor leaves unset and \<^verbatim>\<open>getColor\<close> never reads for an
  empty texture, are 0 here.
\<close>

definition Sphere_plain :: "Vec3f \<Rightarrow> real \<Rightarrow> Vec3f \<Rightarrow> real \<Rightarrow> real \<Rightarrow> Vec3f \<Rightarrow> Sphere" where
  "Sphere_plain c r sc refl_k transp_k ec =
     \<lparr> center = c, radius = r, radius2 = r * r, surfaceColor = sc, emissionColor = ec,
       transparency = transp_k, reflection = refl_k, texture = [],
       textureWidth = 0, textureHeight = 0 \<rparr>"

text \<open>
  The constructor with a texture file: \<^verbatim>\<open>loadTexture\<close> (file input, not modelled)
  delivers the grid and its two dimensions.
\<close>

definition Sphere_textured ::
  "Vec3f \<Rightarrow> real \<Rightarrow> Vec3f \<Rightarrow> real \<Rightarrow> real \<Rightarrow> Vec3f \<Rightarrow> Vec3f list list \<Rightarrow> int \<Rightarrow> int \<Rightarrow> Sphere" where
  "Sphere_textured c r sc refl_k transp_k ec tex w h =
     \<lparr> center = c, radius = r, radius2 = r * r, surfaceColor = sc, emissionColor = ec,
       transparency = transp_k, reflection = refl_k, texture = tex,
       textureWidth = w, textureHeight = h \<rparr>"

text \<open>
  \<^verbatim>\<open>intersect\<close> returns a flag and writes \<^verbatim>\<open>t0\<close>, \<^verbatim>\<open>t1\<close> only when the flag is
  true: \<open>None\<close> is \<^verbatim>\<open>false\<close>, \<open>Some (t0, t1)\<close> is \<^verbatim>\<open>true\<close> with the two
  distances written.
\<close>

definition intersect :: "Sphere \<Rightarrow> Vec3f \<Rightarrow> Vec3f \<Rightarrow> (real \<times> real) option" where
  "intersect s rayorig raydir =
     (let l = vsub (center s) rayorig;
          tca = dot l raydir
      in if tca < 0 then None
         else (let d2 = dot l l - tca * tca
               in if d2 > radius2 s then None
                  else (let thc = sqrt (radius2 s - d2)
                        in Some (tca - thc, tca + thc))))"

text \<open>
  \<^verbatim>\<open>atan2\<close> and \<^verbatim>\<open>acos\<close> are functions of the C library.
  \<^verbatim>\<open>atan2 y x\<close> is the angle of the point \<open>(x, y)\<close> in \<open>[-\<pi>, \<pi>]\<close>, defined for
  every pair of numbers.
\<close>

definition atan2 :: "real \<Rightarrow> real \<Rightarrow> real" where
  "atan2 b a =
     (if a > 0 then arctan (b / a)
      else if a < 0 then (if b \<ge> 0 then arctan (b / a) + pi else arctan (b / a) - pi)
      else if b > 0 then pi / 2
      else if b < 0 then - (pi / 2)
      else 0)"

text \<open>
  \<^verbatim>\<open>acos\<close> has its values in \<open>[0, \<pi>]\<close> on \<open>[-1, 1]\<close> and returns NaN for every other
  argument. Here, and in the functions of \<^verbatim>\<open>getColor\<close> below, a \<^verbatim>\<open>float\<close> that may
  be NaN is a \<^typ>\<open>real option\<close>, with \<open>None\<close> for NaN.
\<close>

definition acos_float :: "real \<Rightarrow> real option" where
  "acos_float a = (if - 1 \<le> a \<and> a \<le> 1 then Some (arccos a) else None)"

text \<open>
  \<^verbatim>\<open>static_cast<int>\<close> of a \<^verbatim>\<open>float\<close> drops the fractional part. Its behaviour is
  undefined when the \<^verbatim>\<open>float\<close> is NaN or when the truncated value is not a value of
  \<^verbatim>\<open>int\<close> (32 bits): the result \<open>None\<close>.
\<close>

definition INT_MIN :: int where
  "INT_MIN = - 2147483648"

definition INT_MAX :: int where
  "INT_MAX = 2147483647"

definition float_to_int :: "real option \<Rightarrow> int option" where
  "float_to_int f =
     (case f of
        None \<Rightarrow> None
      | Some r \<Rightarrow>
          (let k = (if r \<ge> 0 then \<lfloor>r\<rfloor> else \<lceil>r\<rceil>)
           in if INT_MIN \<le> k \<and> k \<le> INT_MAX then Some k else None))"

text \<open>
  Lines 117 and 118 of \<^verbatim>\<open>getColor\<close> are the same expression, once for the column with
  \<^verbatim>\<open>u\<close> and \<^verbatim>\<open>textureWidth\<close>, once for the row with \<^verbatim>\<open>v\<close> and
  \<^verbatim>\<open>textureHeight\<close>:
  \<^verbatim>\<open>std::min(n - 1, std::max(0, static_cast<int>(u * n)))\<close>.
  The product of NaN and \<^verbatim>\<open>n\<close> is NaN; the clamp is applied to the result of the
  conversion, so it is reached only when the conversion is defined.
\<close>

definition pixel_index :: "int \<Rightarrow> real option \<Rightarrow> int option" where
  "pixel_index n u =
     (case float_to_int (map_option (\<lambda>r. r * real_of_int n) u) of
        None \<Rightarrow> None
      | Some k \<Rightarrow> Some (min (n - 1) (max 0 k)))"

text \<open>
  The parameters \<^verbatim>\<open>u\<close> and \<^verbatim>\<open>v\<close> of lines 114 to 116. \<^verbatim>\<open>u\<close> is a number
  for every point. \<^verbatim>\<open>v\<close> is NaN when \<^verbatim>\<open>hit.y / radius\<close> is outside \<open>[-1, 1]\<close>, and
  also when \<^verbatim>\<open>radius\<close> is 0: the quotient is then infinite or NaN, and \<^verbatim>\<open>acos\<close> of
  either is NaN.
\<close>

definition texture_uv :: "Sphere \<Rightarrow> Vec3f \<Rightarrow> real option \<times> real option" where
  "texture_uv s phit =
     (let hit = vsub phit (center s);
          u = Some (atan2 (vz hit) (vx hit) / (2 * pi) + 1 / 2);
          v = (if radius s = 0 then None
               else map_option (\<lambda>a. a / pi) (acos_float (vy hit / radius s)))
      in (u, v))"

text \<open>
  The column \<^verbatim>\<open>x\<close> and the row \<^verbatim>\<open>y\<close> of the texel \<^verbatim>\<open>getColor\<close> reads;
  \<open>None\<close> when one of the two conversions is undefined.
\<close>

definition texel_xy :: "Sphere \<Rightarrow> Vec3f \<Rightarrow> (int \<times> int) option" where
  "texel_xy s phit =
     (let uv = texture_uv s phit
      in case pixel_index (textureWidth s) (fst uv) of
           None \<Rightarrow> None
         | Some x \<Rightarrow>
             (case pixel_index (textureHeight s) (snd uv) of
                None \<Rightarrow> None
              | Some y \<Rightarrow> Some (x, y)))"

text \<open>
  \<^verbatim>\<open>getColor\<close> with its two undefined behaviours as results: a conversion to
  \<^verbatim>\<open>int\<close> that is undefined, and \<^verbatim>\<open>texture[y][x]\<close>, an unchecked read of a
  \<^verbatim>\<open>std::vector\<close>, outside the rows or the columns of the texture.
\<close>

datatype undefined_behaviour = ConversionUndefined | ReadOutOfRange

definition getColor_checked :: "Sphere \<Rightarrow> Vec3f \<Rightarrow> undefined_behaviour + Vec3f" where
  "getColor_checked s phit =
     (if texture s = [] then Inr (surfaceColor s)
      else (case texel_xy s phit of
              None \<Rightarrow> Inl ConversionUndefined
            | Some xy \<Rightarrow>
                (let col = fst xy; row = snd xy
                 in if 0 \<le> row \<and> nat row < length (texture s) \<and>
                       0 \<le> col \<and> nat col < length (texture s ! nat row)
                    then Inr (texture s ! nat row ! nat col)
                    else Inl ReadOutOfRange)))"

text \<open>
  The colour \<^verbatim>\<open>getColor\<close> returns, as \<^verbatim>\<open>trace\<close> uses it: the result of the
  function above where it is a colour. Where the behaviour of the source is undefined
  the colour is left unspecified, and nothing is proved about it.
\<close>

definition getColor :: "Sphere \<Rightarrow> Vec3f \<Rightarrow> Vec3f" where
  "getColor s phit = (case getColor_checked s phit of Inr c \<Rightarrow> c | Inl e \<Rightarrow> undefined)"

text \<open>
  What \<^verbatim>\<open>loadTexture\<close> builds: \<^verbatim>\<open>height\<close> rows of \<^verbatim>\<open>width\<close> colours each.
\<close>

definition texture_loaded :: "Sphere \<Rightarrow> bool" where
  "texture_loaded s =
     (int (length (texture s)) = textureHeight s \<and>
      list_all (\<lambda>row. int (length row) = textureWidth s) (texture s))"

section \<open>The shading engine\<close>

definition MAX_RAY_DEPTH :: int where
  "MAX_RAY_DEPTH = 5"

definition mix :: "real \<Rightarrow> real \<Rightarrow> real \<Rightarrow> real" where
  "mix a b m = b * m + a * (1 - m)"

text \<open>
  \<^verbatim>\<open>INFINITY\<close> is the macro of \<^verbatim>\<open><cmath>\<close> on Linux and macOS, positive infinity, and
  is defined as \<^verbatim>\<open>1e8\<close> by the source on every other platform. It is a parameter of the
  model; a distance is a real number, so the only comparison with it, \<^verbatim>\<open>t0 < tnear\<close>,
  is \<open>less_tnear\<close>.
\<close>

datatype tbound = Finite real | PosInf

definition INFINITY_cmath :: tbound where
  "INFINITY_cmath = PosInf"

definition INFINITY_fallback :: tbound where
  "INFINITY_fallback = Finite 100000000"

fun less_tnear :: "real \<Rightarrow> tbound \<Rightarrow> bool" where
  "less_tnear t PosInf = True"
| "less_tnear t (Finite u) = (t < u)"

text \<open>
  The nearest-hit loop, lines 136 to 147. Its two variables change together:
  \<^verbatim>\<open>sphere\<close> is \<^verbatim>\<open>NULL\<close> exactly while \<^verbatim>\<open>tnear\<close> is still \<^verbatim>\<open>INFINITY\<close>, and
  the one assignment sets both. The state \<open>None\<close> is that initial pair, and
  \<open>Some (tnear, sphere)\<close> the pair after an assignment; the pointer is the sphere it
  points to, as the scene is constant. \<open>tnear_of\<close> reads \<^verbatim>\<open>tnear\<close>.
\<close>

definition tnear_of :: "tbound \<Rightarrow> (real \<times> Sphere) option \<Rightarrow> tbound" where
  "tnear_of infty st = (case st of None \<Rightarrow> infty | Some hit \<Rightarrow> Finite (fst hit))"

definition nearest_step ::
  "tbound \<Rightarrow> Vec3f \<Rightarrow> Vec3f \<Rightarrow> (real \<times> Sphere) option \<Rightarrow> Sphere \<Rightarrow> (real \<times> Sphere) option" where
  "nearest_step infty rayorig raydir st s =
     (case intersect s rayorig raydir of
        None \<Rightarrow> st
      | Some ts \<Rightarrow>
          (let t0 = (if fst ts < 0 then snd ts else fst ts)
           in if less_tnear t0 (tnear_of infty st) then Some (t0, s) else st))"

definition nearest :: "tbound \<Rightarrow> Vec3f \<Rightarrow> Vec3f \<Rightarrow> Sphere list \<Rightarrow> (real \<times> Sphere) option" where
  "nearest infty rayorig raydir spheres = foldl (nearest_step infty rayorig raydir) None spheres"

text \<open>
  The shadow loop, lines 181 to 189, over the indices \<^verbatim>\<open>j\<close> still to visit. It leaves
  either by \<^verbatim>\<open>break\<close> at some \<^verbatim>\<open>j\<close>, the result \<open>Some j\<close>, with
  \<^verbatim>\<open>transmission = 0\<close>, or at the end of the scene, the result \<open>None\<close>, with
  \<^verbatim>\<open>transmission\<close> still 1.
\<close>

fun shadow_loop :: "Sphere list \<Rightarrow> nat \<Rightarrow> Vec3f \<Rightarrow> Vec3f \<Rightarrow> nat list \<Rightarrow> nat option" where
  "shadow_loop spheres i orig lightDirection [] = None"
| "shadow_loop spheres i orig lightDirection (j # js) =
     (if i \<noteq> j \<and> intersect (spheres ! j) orig lightDirection \<noteq> None then Some j
      else shadow_loop spheres i orig lightDirection js)"

definition transmission_of :: "nat option \<Rightarrow> Vec3f" where
  "transmission_of r = (case r of None \<Rightarrow> Vec3_all 1 | Some j \<Rightarrow> Vec3_all 0)"

text \<open>The direction to the light \<^verbatim>\<open>spheres[i]\<close>, lines 179 and 180.\<close>

definition light_direction :: "Sphere list \<Rightarrow> nat \<Rightarrow> Vec3f \<Rightarrow> Vec3f" where
  "light_direction spheres i phit = normalize (vsub (center (spheres ! i)) phit)"

text \<open>Lines 178 to 189: the transmission of the light \<^verbatim>\<open>spheres[i]\<close>.\<close>

definition transmission :: "Sphere list \<Rightarrow> nat \<Rightarrow> Vec3f \<Rightarrow> Vec3f \<Rightarrow> real \<Rightarrow> Vec3f" where
  "transmission spheres i phit nhit bias =
     transmission_of
       (shadow_loop spheres i (vadd phit (vscale nhit bias)) (light_direction spheres i phit)
          [0..<length spheres])"

text \<open>Line 190: what the light \<^verbatim>\<open>spheres[i]\<close> adds to \<^verbatim>\<open>surfaceColor\<close>.\<close>

definition light_term :: "Sphere list \<Rightarrow> Sphere \<Rightarrow> Vec3f \<Rightarrow> Vec3f \<Rightarrow> real \<Rightarrow> nat \<Rightarrow> Vec3f" where
  "light_term spheres sphere phit nhit bias i =
     vmul
       (vscale (vmul (getColor sphere phit) (transmission spheres i phit nhit bias))
          (max 0 (dot nhit (light_direction spheres i phit))))
       (emissionColor (spheres ! i))"

text \<open>One round of the loop of lines 176 to 192, and the loop.\<close>

definition light_step ::
  "Sphere list \<Rightarrow> Sphere \<Rightarrow> Vec3f \<Rightarrow> Vec3f \<Rightarrow> real \<Rightarrow> Vec3f \<Rightarrow> nat \<Rightarrow> Vec3f" where
  "light_step spheres sphere phit nhit bias color i =
     (if vx (emissionColor (spheres ! i)) > 0
      then vadd color (light_term spheres sphere phit nhit bias i)
      else color)"

definition direct_light :: "Sphere list \<Rightarrow> Sphere \<Rightarrow> Vec3f \<Rightarrow> Vec3f \<Rightarrow> real \<Rightarrow> Vec3f" where
  "direct_light spheres sphere phit nhit bias =
     foldl (light_step spheres sphere phit nhit bias) (Vec3_all 0) [0..<length spheres]"

text \<open>
  The geometry of a hit, lines 150 to 155: the hit point, the normal as first computed,
  the flag \<^verbatim>\<open>inside\<close>, and the normal after the flip.
\<close>

definition hit_point :: "Vec3f \<Rightarrow> Vec3f \<Rightarrow> real \<Rightarrow> Vec3f" where
  "hit_point rayorig raydir tnear = vadd rayorig (vscale raydir tnear)"

definition is_inside :: "Vec3f \<Rightarrow> Sphere \<Rightarrow> Vec3f \<Rightarrow> bool" where
  "is_inside raydir sphere phit = (dot raydir (normalize (vsub phit (center sphere))) > 0)"

definition hit_normal :: "Vec3f \<Rightarrow> Sphere \<Rightarrow> Vec3f \<Rightarrow> Vec3f" where
  "hit_normal raydir sphere phit =
     (let nhit = normalize (vsub phit (center sphere))
      in if dot raydir nhit > 0 then vneg nhit else nhit)"

definition bias :: real where
  "bias = 1 / 10000"

text \<open>
  Lines 157 to 168: the Fresnel factor and the directions of the two secondary rays.
  \<^verbatim>\<open>sqrt(k)\<close> of a negative \<^verbatim>\<open>k\<close> is NaN in C and \<open>- sqrt (- k)\<close> in HOL; the
  source does not guard it and nothing below depends on it.
\<close>

definition fresneleffect :: "Vec3f \<Rightarrow> Vec3f \<Rightarrow> real" where
  "fresneleffect raydir nhit =
     (let facingratio = - dot raydir nhit in mix ((1 - facingratio) ^ 3) 1 (1 / 10))"

definition refldir :: "Vec3f \<Rightarrow> Vec3f \<Rightarrow> Vec3f" where
  "refldir raydir nhit = normalize (vsub raydir (vscale (vscale nhit 2) (dot raydir nhit)))"

definition refrdir :: "Vec3f \<Rightarrow> Vec3f \<Rightarrow> bool \<Rightarrow> Vec3f" where
  "refrdir raydir nhit inside =
     (let ior = 11 / 10;
          eta = (if inside then ior else 1 / ior);
          cosi = - dot nhit raydir;
          k = 1 - eta * eta * (1 - cosi * cosi)
      in normalize (vadd (vscale raydir eta) (vscale nhit (eta * cosi - sqrt k))))"

text \<open>Lines 171 to 173.\<close>

definition blend :: "Sphere \<Rightarrow> Vec3f \<Rightarrow> real \<Rightarrow> Vec3f \<Rightarrow> Vec3f \<Rightarrow> Vec3f" where
  "blend sphere phit fresnel reflection_c refraction_c =
     vmul
       (vadd (vscale reflection_c fresnel)
          (vscale (vscale refraction_c (1 - fresnel)) (transparency sphere)))
       (getColor sphere phit)"

text \<open>
  \<^verbatim>\<open>trace\<close>, with \<^verbatim>\<open>MAX_RAY_DEPTH\<close> and \<^verbatim>\<open>INFINITY\<close> as its first two
  parameters. \<^verbatim>\<open>depth\<close> is a C \<^verbatim>\<open>int\<close>; it only grows by 1 below
  \<open>max_depth\<close>, so it never overflows.
\<close>

function trace :: "int \<Rightarrow> tbound \<Rightarrow> Vec3f \<Rightarrow> Vec3f \<Rightarrow> Sphere list \<Rightarrow> int \<Rightarrow> Vec3f" where
  "trace max_depth infty rayorig raydir spheres depth =
     (case nearest infty rayorig raydir spheres of
        None \<Rightarrow> Vec3_all 2
      | Some hit \<Rightarrow>
          (let tnear = fst hit;
               sphere = snd hit;
               phit = hit_point rayorig raydir tnear;
               inside = is_inside raydir sphere phit;
               nhit = hit_normal raydir sphere phit
           in if (transparency sphere > 0 \<or> reflection sphere > 0) \<and> depth < max_depth
              then
                (let reflection_c =
                       trace max_depth infty (vadd phit (vscale nhit bias)) (refldir raydir nhit)
                         spheres (depth + 1);
                     refraction_c =
                       (if transparency sphere \<noteq> 0
                        then trace max_depth infty (vsub phit (vscale nhit bias))
                               (refrdir raydir nhit inside) spheres (depth + 1)
                        else Vec3_all 0)
                 in vadd (blend sphere phit (fresneleffect raydir nhit) reflection_c refraction_c)
                      (emissionColor sphere))
              else vadd (direct_light spheres sphere phit nhit bias) (emissionColor sphere)))"
  by pat_completeness auto
termination
  by (relation "measure (\<lambda>(max_depth, infty, rayorig, raydir, spheres, depth). nat (max_depth - depth))")
    auto

declare trace.simps [simp del]

text \<open>
  The same function with a budget of stack frames: every call, the first one included,
  takes one frame, and a call that finds no frame left is \<open>None\<close>.
\<close>

fun trace_fuel ::
  "nat \<Rightarrow> int \<Rightarrow> tbound \<Rightarrow> Vec3f \<Rightarrow> Vec3f \<Rightarrow> Sphere list \<Rightarrow> int \<Rightarrow> Vec3f option" where
  "trace_fuel 0 max_depth infty rayorig raydir spheres depth = None"
| "trace_fuel (Suc frames) max_depth infty rayorig raydir spheres depth =
     (case nearest infty rayorig raydir spheres of
        None \<Rightarrow> Some (Vec3_all 2)
      | Some hit \<Rightarrow>
          (let tnear = fst hit;
               sphere = snd hit;
               phit = hit_point rayorig raydir tnear;
               inside = is_inside raydir sphere phit;
               nhit = hit_normal raydir sphere phit
           in if (transparency sphere > 0 \<or> reflection sphere > 0) \<and> depth < max_depth
              then
                (case trace_fuel frames max_depth infty (vadd phit (vscale nhit bias))
                        (refldir raydir nhit) spheres (depth + 1) of
                   None \<Rightarrow> None
                 | Some reflection_c \<Rightarrow>
                     (case (if transparency sphere \<noteq> 0
                            then trace_fuel frames max_depth infty (vsub phit (vscale nhit bias))
                                   (refrdir raydir nhit inside) spheres (depth + 1)
                            else Some (Vec3_all 0)) of
                        None \<Rightarrow> None
                      | Some refraction_c \<Rightarrow>
                          Some (vadd (blend sphere phit (fresneleffect raydir nhit)
                                        reflection_c refraction_c)
                                  (emissionColor sphere))))
              else Some (vadd (direct_light spheres sphere phit nhit bias)
                           (emissionColor sphere))))"

text \<open>
  A sphere that leaves the state of the nearest-hit loop as it was at the start: it is
  missed, or it is hit at a distance that is not below the initial \<^verbatim>\<open>INFINITY\<close>.
\<close>

definition no_candidate :: "tbound \<Rightarrow> Vec3f \<Rightarrow> Vec3f \<Rightarrow> Sphere \<Rightarrow> bool" where
  "no_candidate infty rayorig raydir s =
     (case intersect s rayorig raydir of
        None \<Rightarrow> True
      | Some ts \<Rightarrow> \<not> less_tnear (if fst ts < 0 then snd ts else fst ts) infty)"

section \<open>Example scenes\<close>

text \<open>A white unit sphere at the origin, opaque and dark, and one far down the z axis.\<close>

definition unit_ball :: Sphere where
  "unit_ball = Sphere_plain (Vec3 0 0 0) 1 (Vec3 1 1 1) 0 0 (Vec3 0 0 0)"

definition far_ball :: Sphere where
  "far_ball = Sphere_plain (Vec3 0 0 (- 200000000)) 1 (Vec3 1 1 1) 0 0 (Vec3 0 0 0)"

text \<open>
  A light above the unit sphere on the z axis, white in \<open>lamp\<close> and pure green in
  \<open>green_lamp\<close>, and a unit sphere that is a perfect mirror.
\<close>

definition lamp :: Sphere where
  "lamp = Sphere_plain (Vec3 0 0 3) (1 / 2) (Vec3 0 0 0) 0 0 (Vec3 3 3 3)"

definition green_lamp :: Sphere where
  "green_lamp = Sphere_plain (Vec3 0 0 3) (1 / 2) (Vec3 0 0 0) 0 0 (Vec3 0 1 0)"

definition mirror_ball :: Sphere where
  "mirror_ball = Sphere_plain (Vec3 0 0 0) 1 (Vec3 1 1 1) 1 0 (Vec3 0 0 0)"




text \<open>A unit sphere with a texture of two rows and three columns.\<close>

definition checker :: "Vec3f list list" where
  "checker = [[Vec3 0 0 0, Vec3 1 1 1, Vec3 0 0 0], [Vec3 1 0 0, Vec3 0 1 0, Vec3 0 0 1]]"

definition globe :: Sphere where
  "globe = Sphere_textured (Vec3 0 0 0) 1 (Vec3 1 1 1) 0 0 (Vec3 0 0 0) checker 3 2"

section \<open>The lights as the specification describes them\<close>

text \<open>
  The specification's data model calls a sphere a light when its emission colour has a
  positive component. \<open>direct_light_claimed\<close> is the direct illumination with the
  lights chosen by these words, each light adding what line 190 adds; it is compared
  with \<open>direct_light\<close>, the loop of the source, below.
\<close>

definition has_positive_component :: "Vec3f \<Rightarrow> bool" where
  "has_positive_component e = (vx e > 0 \<or> vy e > 0 \<or> vz e > 0)"

definition direct_light_claimed :: "Sphere list \<Rightarrow> Sphere \<Rightarrow> Vec3f \<Rightarrow> Vec3f \<Rightarrow> real \<Rightarrow> Vec3f" where
  "direct_light_claimed spheres sphere phit nhit b =
     foldl vadd (Vec3_all 0)
       (map (light_term spheres sphere phit nhit b)
          (filter (\<lambda>i. has_positive_component (emissionColor (spheres ! i)))
             [0..<length spheres]))"

section \<open>Properties of the vector operations\<close>

text \<open>
  C7: \<^verbatim>\<open>normalize\<close> leaves a vector whose squared length is not strictly positive
  as it is, the zero vector among them; a vector of strictly positive squared length has
  each component multiplied by the reciprocal of the square root of the squared length.
  The divisor of its one division is never zero: the checked function never returns the
  error. A vector of squared length 1 is returned as it is.
\<close>

theorem normalize_guarded:
  "(\<not> length2 v > 0 \<longrightarrow> normalize v = v) \<and>
   normalize (Vec3 0 0 0) = Vec3 0 0 0 \<and>
   (length2 v > 0 \<longrightarrow>
      sqrt (length2 v) \<noteq> 0 \<and>
      normalize v =
        Vec3 (vx v * (1 / sqrt (length2 v))) (vy v * (1 / sqrt (length2 v)))
          (vz v * (1 / sqrt (length2 v)))) \<and>
   (length2 v = 1 \<longrightarrow> normalize v = v) \<and>
   normalize_checked v = Inr (normalize v)"
  by (simp add: normalize_checked_def normalize_def checked_div_def Let_def length2_def)

theorem normalize_guarded_witness:
  "length2 (Vec3 0 0 2) > 0 \<and> normalize (Vec3 0 0 2) = Vec3 0 0 1 \<and>
   normalize_checked (Vec3 0 0 2) = Inr (Vec3 0 0 1) \<and>
   \<not> length2 (Vec3 0 0 0) > 0 \<and> normalize (Vec3 0 0 0) = Vec3 0 0 0 \<and>
   length2 (Vec3 0 (- 1) 0) = 1 \<and> normalize (Vec3 0 (- 1) 0) = Vec3 0 (- 1) 0"
  using normalize_guarded [of "Vec3 0 0 2"] normalize_guarded [of "Vec3 0 0 0"]
    normalize_guarded [of "Vec3 0 (- 1) 0"]
  by (simp add: length2_def)

section \<open>Ray and sphere\<close>

text \<open>Both constructors store the square of the radius in \<^verbatim>\<open>radius2\<close>.\<close>

lemma constructed_radius2:
  "radius2 (Sphere_plain c r sc refl_k transp_k ec) = r * r"
  "radius2 (Sphere_textured c r sc refl_k transp_k ec tex w h) = r * r"
  by (simp_all add: Sphere_plain_def Sphere_textured_def)

text \<open>
  C3: with \<open>l = center - rayorig\<close>, \<open>tca = l \<cdot> raydir\<close> and \<open>d2 = l \<cdot> l - tca\<^sup>2\<close>,
  \<^verbatim>\<open>intersect\<close> reports no intersection exactly when \<open>tca < 0\<close> or \<open>d2 > radius2\<close>, so
  also whenever the centre is behind the origin, wherever the origin is; otherwise it
  reports \<open>t0 = tca - thc\<close> and \<open>t1 = tca + thc\<close> with \<open>thc = sqrt (radius2 - d2)\<close>,
  and then \<open>t0 \<le> t1\<close> and both are as far from \<open>tca\<close>.
\<close>

theorem intersect_cases:
  "(let l = vsub (center s) rayorig;
        tca = dot l raydir;
        d2 = dot l l - tca * tca;
        thc = sqrt (radius2 s - d2)
    in (intersect s rayorig raydir = None \<longleftrightarrow> tca < 0 \<or> d2 > radius2 s) \<and>
       (tca < 0 \<longrightarrow> intersect s rayorig raydir = None) \<and>
       (\<not> (tca < 0 \<or> d2 > radius2 s) \<longrightarrow>
          intersect s rayorig raydir = Some (tca - thc, tca + thc) \<and>
          tca - thc \<le> tca + thc \<and>
          tca - (tca - thc) = (tca + thc) - tca))"
  by (simp add: intersect_def Let_def)

theorem intersect_cases_witness:
  "length2 (vsub (Vec3 0 0 (- (1 / 2))) (center unit_ball)) < radius2 unit_ball \<and>
   intersect unit_ball (Vec3 0 0 (- (1 / 2))) (Vec3 0 0 (- 1)) = None \<and>
   intersect unit_ball (Vec3 0 0 2) (Vec3 0 0 (- 1)) = Some (1, 3)"
  using intersect_cases [of unit_ball "Vec3 0 0 (- (1 / 2))" "Vec3 0 0 (- 1)"]
    intersect_cases [of unit_ball "Vec3 0 0 2" "Vec3 0 0 (- 1)"]
  by (simp add: unit_ball_def Sphere_plain_def vsub_def dot_def length2_def Let_def)

lemma intersect_Some_iff:
  "intersect s rayorig raydir = Some ts \<longleftrightarrow>
     (let l = vsub (center s) rayorig; tca = dot l raydir; d2 = dot l l - tca * tca
      in 0 \<le> tca \<and> d2 \<le> radius2 s \<and>
         ts = (tca - sqrt (radius2 s - d2), tca + sqrt (radius2 s - d2)))"
  by (auto simp add: intersect_def Let_def)

lemma intersect_t1_nonneg:
  assumes "intersect s rayorig raydir = Some (t0, t1)"
  shows "0 \<le> t1"
proof -
  define l where "l = vsub (center s) rayorig"
  define tca where "tca = dot l raydir"
  define d2 where "d2 = dot l l - tca * tca"
  from assms have "0 \<le> tca" and "d2 \<le> radius2 s" and "t1 = tca + sqrt (radius2 s - d2)"
    by (simp_all add: intersect_Some_iff Let_def l_def tca_def d2_def)
  moreover have "0 \<le> sqrt (radius2 s - d2)"
    using \<open>d2 \<le> radius2 s\<close> by simp
  ultimately show ?thesis by linarith
qed

lemma intersect_used_nonneg:
  "intersect s rayorig raydir = Some (t0, t1) \<Longrightarrow> 0 \<le> (if t0 < 0 then t1 else t0)"
  using intersect_t1_nonneg [of s rayorig raydir t0 t1] by simp

lemma nearest_step_nonneg:
  assumes "\<And>t s. st = Some (t, s) \<Longrightarrow> 0 \<le> t"
    and "nearest_step infty rayorig raydir st s = Some (t, s')"
  shows "0 \<le> t"
proof (cases "intersect s rayorig raydir")
  case None
  with assms show ?thesis by (simp add: nearest_step_def)
next
  case (Some ts)
  obtain t0 t1 where ts: "ts = (t0, t1)" by (cases ts)
  have "0 \<le> (if t0 < 0 then t1 else t0)"
    using Some ts intersect_used_nonneg by simp
  with assms Some ts show ?thesis
    by (auto simp add: nearest_step_def Let_def split: if_splits)
qed

lemma foldl_nearest_nonneg:
  "(\<And>t s. st = Some (t, s) \<Longrightarrow> 0 \<le> t) \<Longrightarrow>
   foldl (nearest_step infty rayorig raydir) st spheres = Some (t, s') \<Longrightarrow> 0 \<le> t"
proof (induction spheres arbitrary: st)
  case Nil
  then show ?case by simp
next
  case (Cons a spheres)
  show ?case
  proof (rule Cons.IH [of "nearest_step infty rayorig raydir st a"])
    fix u s
    assume "nearest_step infty rayorig raydir st a = Some (u, s)"
    then show "0 \<le> u"
      using nearest_step_nonneg [of st infty rayorig raydir a u s] Cons.prems(1) by blast
  next
    show "foldl (nearest_step infty rayorig raydir) (nearest_step infty rayorig raydir st a) spheres = Some (t, s')"
      using Cons.prems(2) by simp
  qed
qed

lemma nearest_step_mem:
  "nearest_step infty rayorig raydir st s = Some hit \<Longrightarrow> st = Some hit \<or> snd hit = s"
  by (auto simp add: nearest_step_def Let_def split: option.splits if_splits)

lemma foldl_nearest_mem:
  "foldl (nearest_step infty rayorig raydir) st spheres = Some hit \<Longrightarrow>
   st = Some hit \<or> snd hit \<in> set spheres"
proof (induction spheres arbitrary: st)
  case Nil
  then show ?case by simp
next
  case (Cons a spheres)
  from Cons.prems have "foldl (nearest_step infty rayorig raydir) (nearest_step infty rayorig raydir st a) spheres = Some hit"
    by simp
  then have "nearest_step infty rayorig raydir st a = Some hit \<or> snd hit \<in> set spheres"
    by (rule Cons.IH)
  then show ?case
    using nearest_step_mem [of infty rayorig raydir st a hit] by auto
qed

lemma nearest_mem: "nearest infty rayorig raydir spheres = Some hit \<Longrightarrow> snd hit \<in> set spheres"
  using foldl_nearest_mem [of infty rayorig raydir None spheres hit] by (simp add: nearest_def)

section \<open>The nearest hit\<close>

lemma nearest_step_None:
  "nearest_step infty rayorig raydir None s = None \<longleftrightarrow> no_candidate infty rayorig raydir s"
  by (simp add: nearest_step_def no_candidate_def tnear_of_def Let_def split: option.splits)

lemma foldl_nearest_Some:
  "foldl (nearest_step infty rayorig raydir) (Some hit) spheres \<noteq> None"
proof (induction spheres arbitrary: hit)
  case Nil
  show ?case by simp
next
  case (Cons a spheres)
  have "\<exists>hit'. nearest_step infty rayorig raydir (Some hit) a = Some hit'"
    by (simp add: nearest_step_def Let_def split: option.splits)
  then show ?case using Cons.IH by auto
qed

lemma nearest_None_iff:
  "nearest infty rayorig raydir spheres = None \<longleftrightarrow>
   (\<forall>s \<in> set spheres. no_candidate infty rayorig raydir s)"
  unfolding nearest_def
proof (induction spheres)
  case Nil
  show ?case by simp
next
  case (Cons a spheres)
  show ?case
  proof (cases "nearest_step infty rayorig raydir None a")
    case None
    then show ?thesis using Cons.IH nearest_step_None [of infty rayorig raydir a] by simp
  next
    case (Some hit)
    then show ?thesis
      using foldl_nearest_Some [of infty rayorig raydir hit spheres]
        nearest_step_None [of infty rayorig raydir a] by simp
  qed
qed

text \<open>
  C4: when every sphere of the scene is missed by the ray, or hit at a distance that is
  not below the initial \<^verbatim>\<open>INFINITY\<close>, \<^verbatim>\<open>trace\<close> returns the background colour
  \<open>(2, 2, 2)\<close>, whatever the origin, the direction and the depth.
\<close>

theorem trace_background:
  "(\<forall>s \<in> set spheres.
      intersect s rayorig raydir = None \<or>
      (\<exists>t0 t1. intersect s rayorig raydir = Some (t0, t1) \<and>
         \<not> less_tnear (if t0 < 0 then t1 else t0) infty)) \<Longrightarrow>
   trace max_depth infty rayorig raydir spheres depth = Vec3 2 2 2"
proof -
  assume a: "\<forall>s \<in> set spheres.
      intersect s rayorig raydir = None \<or>
      (\<exists>t0 t1. intersect s rayorig raydir = Some (t0, t1) \<and>
         \<not> less_tnear (if t0 < 0 then t1 else t0) infty)"
  have "\<forall>s \<in> set spheres. no_candidate infty rayorig raydir s"
  proof
    fix s assume "s \<in> set spheres"
    with a have "intersect s rayorig raydir = None \<or>
      (\<exists>t0 t1. intersect s rayorig raydir = Some (t0, t1) \<and>
         \<not> less_tnear (if t0 < 0 then t1 else t0) infty)" by blast
    then show "no_candidate infty rayorig raydir s"
      by (auto simp add: no_candidate_def)
  qed
  then have "nearest infty rayorig raydir spheres = None"
    by (simp add: nearest_None_iff)
  then show ?thesis
    by (simp add: trace.simps Vec3_all_def)
qed

theorem trace_background_witness:
  "intersect unit_ball (Vec3 0 0 2) (Vec3 0 0 1) = None \<and>
   trace MAX_RAY_DEPTH INFINITY_cmath (Vec3 0 0 2) (Vec3 0 0 1) [unit_ball] 0 = Vec3 2 2 2 \<and>
   intersect far_ball (Vec3 0 0 0) (Vec3 0 0 (- 1)) = Some (199999999, 200000001) \<and>
   \<not> less_tnear 199999999 INFINITY_fallback \<and>
   trace MAX_RAY_DEPTH INFINITY_fallback (Vec3 0 0 0) (Vec3 0 0 (- 1)) [far_ball] 0 = Vec3 2 2 2"
proof -
  have a: "intersect unit_ball (Vec3 0 0 2) (Vec3 0 0 1) = None"
    by (simp add: intersect_def unit_ball_def Sphere_plain_def vsub_def dot_def Let_def)
  have b: "intersect far_ball (Vec3 0 0 0) (Vec3 0 0 (- 1)) = Some (199999999, 200000001)"
    by (simp add: intersect_def far_ball_def Sphere_plain_def vsub_def dot_def Let_def)
  have c: "\<not> less_tnear 199999999 INFINITY_fallback"
    by (simp add: INFINITY_fallback_def)
  show ?thesis
    using a b c
      trace_background [of "[unit_ball]" "Vec3 0 0 2" "Vec3 0 0 1" INFINITY_cmath MAX_RAY_DEPTH 0]
      trace_background [of "[far_ball]" "Vec3 0 0 0" "Vec3 0 0 (- 1)" INFINITY_fallback MAX_RAY_DEPTH 0]
    by simp
qed

text \<open>
  C9: the distance the nearest-hit loop tracks is never negative. Whenever
  \<^verbatim>\<open>intersect\<close> reports a hit, \<open>t1\<close> is not negative, so neither is the distance
  line 141 keeps (\<open>t0\<close>, or \<open>t1\<close> when \<open>t0 < 0\<close>); and the \<^verbatim>\<open>tnear\<close> selected
  after the whole scene, or after any number \<open>n\<close> of its spheres, is not negative.
\<close>

theorem nearest_distance_nonneg:
  "(intersect s rayorig raydir = Some (t0, t1) \<longrightarrow>
      0 \<le> t1 \<and> 0 \<le> (if t0 < 0 then t1 else t0)) \<and>
   (nearest infty rayorig raydir spheres = Some (tnear, sphere) \<longrightarrow> 0 \<le> tnear) \<and>
   (nearest infty rayorig raydir (take n spheres) = Some (tnear', sphere') \<longrightarrow> 0 \<le> tnear')"
proof (intro conjI impI)
  assume h: "intersect s rayorig raydir = Some (t0, t1)"
  show "0 \<le> t1" using h by (rule intersect_t1_nonneg)
  show "0 \<le> (if t0 < 0 then t1 else t0)" using h by (rule intersect_used_nonneg)
next
  assume "nearest infty rayorig raydir spheres = Some (tnear, sphere)"
  then show "0 \<le> tnear"
    using foldl_nearest_nonneg [of None infty rayorig raydir spheres tnear sphere]
    by (simp add: nearest_def)
next
  assume "nearest infty rayorig raydir (take n spheres) = Some (tnear', sphere')"
  then show "0 \<le> tnear'"
    using foldl_nearest_nonneg [of None infty rayorig raydir "take n spheres" tnear' sphere']
    by (simp add: nearest_def)
qed

theorem nearest_distance_nonneg_witness:
  "intersect unit_ball (Vec3 0 0 0) (Vec3 0 0 (- 1)) = Some (- 1, 1) \<and>
   nearest INFINITY_cmath (Vec3 0 0 0) (Vec3 0 0 (- 1)) [unit_ball] = Some (1, unit_ball) \<and>
   nearest INFINITY_cmath (Vec3 0 0 0) (Vec3 0 0 (- 1)) (take 1 [unit_ball, far_ball])
     = Some (1, unit_ball) \<and>
   (0 :: real) \<le> 1"
proof -
  have a: "intersect unit_ball (Vec3 0 0 0) (Vec3 0 0 (- 1)) = Some (- 1, 1)"
    by (simp add: intersect_def unit_ball_def Sphere_plain_def vsub_def dot_def Let_def)
  have b: "nearest INFINITY_cmath (Vec3 0 0 0) (Vec3 0 0 (- 1)) [unit_ball] = Some (1, unit_ball)"
    by (simp add: nearest_def nearest_step_def a tnear_of_def INFINITY_cmath_def)
  show ?thesis
    using a b
      nearest_distance_nonneg [of unit_ball "Vec3 0 0 0" "Vec3 0 0 (- 1)" "- 1" 1
        INFINITY_cmath "[unit_ball]" 1 unit_ball 1 1 unit_ball]
    by simp
qed

section \<open>The example scene\<close>

text \<open>
  The ray from \<open>(0, 0, 2)\<close> down the z axis meets the unit sphere at \<open>(0, 0, 1)\<close>; the
  lamp is behind the ray's origin, straight above the hit point.
\<close>

lemma ex_hit_point: "hit_point (Vec3 0 0 2) (Vec3 0 0 (- 1)) 1 = Vec3 0 0 1"
  by (simp add: hit_point_def vadd_def vscale_def)

lemma ex_hit_normal: "hit_normal (Vec3 0 0 (- 1)) unit_ball (Vec3 0 0 1) = Vec3 0 0 1"
  by (simp add: hit_normal_def unit_ball_def Sphere_plain_def vsub_def normalize_def length2_def
      dot_def Let_def)

lemma ex_light_dir: "normalize (vsub (Vec3 0 0 3) (Vec3 0 0 1)) = Vec3 0 0 1"
  by (simp add: vsub_def normalize_def length2_def Let_def)

lemma ex_shadow_origin: "vadd (Vec3 0 0 1) (vscale (Vec3 0 0 1) bias) = Vec3 0 0 (10001 / 10000)"
  by (simp add: vadd_def vscale_def bias_def)

lemma ex_unoccluded: "intersect unit_ball (Vec3 0 0 (10001 / 10000)) (Vec3 0 0 1) = None"
  by (simp add: intersect_def unit_ball_def Sphere_plain_def vsub_def dot_def Let_def)

lemma ex_ball_hit: "intersect unit_ball (Vec3 0 0 2) (Vec3 0 0 (- 1)) = Some (1, 3)"
  by (simp add: intersect_def unit_ball_def Sphere_plain_def vsub_def dot_def Let_def)

lemma ex_lamp_missed: "intersect lamp (Vec3 0 0 2) (Vec3 0 0 (- 1)) = None"
  by (simp add: intersect_def lamp_def Sphere_plain_def vsub_def dot_def Let_def)

lemma ex_green_missed: "intersect green_lamp (Vec3 0 0 2) (Vec3 0 0 (- 1)) = None"
  by (simp add: intersect_def green_lamp_def Sphere_plain_def vsub_def dot_def Let_def)

lemma ex_nearest:
  "nearest INFINITY_cmath (Vec3 0 0 2) (Vec3 0 0 (- 1)) [unit_ball, lamp] = Some (1, unit_ball)"
  by (simp add: nearest_def nearest_step_def ex_ball_hit ex_lamp_missed tnear_of_def
      INFINITY_cmath_def)

lemma ex_nearest_green:
  "nearest INFINITY_cmath (Vec3 0 0 2) (Vec3 0 0 (- 1)) [unit_ball, green_lamp] = Some (1, unit_ball)"
  by (simp add: nearest_def nearest_step_def ex_ball_hit ex_green_missed tnear_of_def
      INFINITY_cmath_def)

section \<open>Termination\<close>

lemma trace_fuel_enough:
  "nat (max_depth - depth) < frames \<Longrightarrow>
   trace_fuel frames max_depth infty rayorig raydir spheres depth =
     Some (trace max_depth infty rayorig raydir spheres depth)"
proof (induction frames arbitrary: rayorig raydir depth)
  case 0
  then show ?case by simp
next
  case (Suc frames)
  have IH: "trace_fuel frames max_depth infty orig dir spheres (depth + 1) =
      Some (trace max_depth infty orig dir spheres (depth + 1))"
    if "depth < max_depth" for orig dir
  proof (rule Suc.IH)
    show "nat (max_depth - (depth + 1)) < frames"
      using Suc.prems that by linarith
  qed
  show ?case
  proof (cases "nearest infty rayorig raydir spheres")
    case None
    then show ?thesis by (simp add: trace.simps)
  next
    case (Some hit)
    show ?thesis
    proof (cases "(transparency (snd hit) > 0 \<or> reflection (snd hit) > 0) \<and> depth < max_depth")
      case True
      then have d: "depth < max_depth" by simp
      show ?thesis
        by (subst trace.simps) (simp add: Some True IH [OF d] Let_def)
    next
      case False
      show ?thesis
        by (subst trace.simps) (simp add: Some False Let_def)
    qed
  qed
qed

text \<open>
  C5: \<^verbatim>\<open>trace\<close> returns on every input. A recursive call is made only when
  \<open>depth < MAX_RAY_DEPTH\<close> and passes \<open>depth + 1\<close>, so a call at \<open>depth\<close> needs at
  most \<open>5 - depth\<close> nested calls below it: with more frames than that the budgeted
  function returns the value of \<open>trace\<close>, and from a depth that is not negative, as the
  driver's 0, six frames (the call and five levels of recursion) are always enough.
\<close>

theorem trace_total:
  "(nat (MAX_RAY_DEPTH - depth) < frames \<longrightarrow>
      trace_fuel frames MAX_RAY_DEPTH infty rayorig raydir spheres depth =
        Some (trace MAX_RAY_DEPTH infty rayorig raydir spheres depth)) \<and>
   (\<exists>color. trace_fuel (Suc (nat (MAX_RAY_DEPTH - depth))) MAX_RAY_DEPTH infty rayorig raydir
       spheres depth = Some color) \<and>
   (0 \<le> depth \<longrightarrow>
      trace_fuel 6 MAX_RAY_DEPTH infty rayorig raydir spheres depth =
        Some (trace MAX_RAY_DEPTH infty rayorig raydir spheres depth))"
proof (intro conjI impI)
  assume "nat (MAX_RAY_DEPTH - depth) < frames"
  then show "trace_fuel frames MAX_RAY_DEPTH infty rayorig raydir spheres depth =
        Some (trace MAX_RAY_DEPTH infty rayorig raydir spheres depth)"
    by (rule trace_fuel_enough)
next
  have "nat (MAX_RAY_DEPTH - depth) < Suc (nat (MAX_RAY_DEPTH - depth))" by simp
  then have "trace_fuel (Suc (nat (MAX_RAY_DEPTH - depth))) MAX_RAY_DEPTH infty rayorig raydir
       spheres depth = Some (trace MAX_RAY_DEPTH infty rayorig raydir spheres depth)"
    by (rule trace_fuel_enough)
  then show "\<exists>color. trace_fuel (Suc (nat (MAX_RAY_DEPTH - depth))) MAX_RAY_DEPTH infty rayorig raydir
       spheres depth = Some color" by blast
next
  assume "0 \<le> depth"
  then have "nat (MAX_RAY_DEPTH - depth) < 6" by (simp add: MAX_RAY_DEPTH_def)
  then show "trace_fuel 6 MAX_RAY_DEPTH infty rayorig raydir spheres depth =
        Some (trace MAX_RAY_DEPTH infty rayorig raydir spheres depth)"
    by (rule trace_fuel_enough)
qed

text \<open>
  A ray along the z axis inside the mirror sphere goes from pole to pole for ever:
  from just above the south pole upwards it is reflected at the north pole, and back.
\<close>

lemma mirror_fields:
  "center mirror_ball = Vec3 0 0 0" "radius2 mirror_ball = 1"
  "transparency mirror_ball = 0" "reflection mirror_ball = 1"
  by (simp_all add: mirror_ball_def Sphere_plain_def)

lemma mirror_nearest_start:
  "nearest INFINITY_cmath (Vec3 0 0 0) (Vec3 0 0 (- 1)) [mirror_ball] = Some (1, mirror_ball)"
  by (simp add: nearest_def nearest_step_def intersect_def mirror_fields vsub_def dot_def
      tnear_of_def INFINITY_cmath_def Let_def)

lemma mirror_nearest_up:
  "nearest INFINITY_cmath (Vec3 0 0 (- (9999 / 10000))) (Vec3 0 0 1) [mirror_ball]
     = Some (19999 / 10000, mirror_ball)"
  by (simp add: nearest_def nearest_step_def intersect_def mirror_fields vsub_def dot_def
      tnear_of_def INFINITY_cmath_def Let_def)

lemma mirror_nearest_down:
  "nearest INFINITY_cmath (Vec3 0 0 (9999 / 10000)) (Vec3 0 0 (- 1)) [mirror_ball]
     = Some (19999 / 10000, mirror_ball)"
  by (simp add: nearest_def nearest_step_def intersect_def mirror_fields vsub_def dot_def
      tnear_of_def INFINITY_cmath_def Let_def)

lemma mirror_south:
  "hit_point (Vec3 0 0 0) (Vec3 0 0 (- 1)) 1 = Vec3 0 0 (- 1)"
  "hit_point (Vec3 0 0 (9999 / 10000)) (Vec3 0 0 (- 1)) (19999 / 10000) = Vec3 0 0 (- 1)"
  "hit_normal (Vec3 0 0 (- 1)) mirror_ball (Vec3 0 0 (- 1)) = Vec3 0 0 1"
  "vadd (Vec3 0 0 (- 1)) (vscale (Vec3 0 0 1) bias) = Vec3 0 0 (- (9999 / 10000))"
  "refldir (Vec3 0 0 (- 1)) (Vec3 0 0 1) = Vec3 0 0 1"
  by (simp_all add: hit_point_def hit_normal_def refldir_def mirror_fields vadd_def vsub_def
      vscale_def vneg_def dot_def normalize_def length2_def bias_def Let_def)

lemma mirror_north:
  "hit_point (Vec3 0 0 (- (9999 / 10000))) (Vec3 0 0 1) (19999 / 10000) = Vec3 0 0 1"
  "hit_normal (Vec3 0 0 1) mirror_ball (Vec3 0 0 1) = Vec3 0 0 (- 1)"
  "vadd (Vec3 0 0 1) (vscale (Vec3 0 0 (- 1)) bias) = Vec3 0 0 (9999 / 10000)"
  "refldir (Vec3 0 0 1) (Vec3 0 0 (- 1)) = Vec3 0 0 (- 1)"
  by (simp_all add: hit_point_def hit_normal_def refldir_def mirror_fields vadd_def vsub_def
      vscale_def vneg_def dot_def normalize_def length2_def bias_def Let_def)

lemma mirror_start_None:
  assumes "trace_fuel n m INFINITY_cmath (Vec3 0 0 (- (9999 / 10000))) (Vec3 0 0 1)
      [mirror_ball] (depth + 1) = None" and "depth < m"
  shows "trace_fuel (Suc n) m INFINITY_cmath (Vec3 0 0 0) (Vec3 0 0 (- 1)) [mirror_ball] depth
    = None"
  using assms by (simp add: mirror_nearest_start mirror_fields mirror_south Let_def)

lemma mirror_up_None:
  assumes "trace_fuel n m INFINITY_cmath (Vec3 0 0 (9999 / 10000)) (Vec3 0 0 (- 1))
      [mirror_ball] (depth + 1) = None" and "depth < m"
  shows "trace_fuel (Suc n) m INFINITY_cmath (Vec3 0 0 (- (9999 / 10000))) (Vec3 0 0 1)
      [mirror_ball] depth = None"
  using assms by (simp add: mirror_nearest_up mirror_fields mirror_north Let_def)

lemma mirror_down_None:
  assumes "trace_fuel n m INFINITY_cmath (Vec3 0 0 (- (9999 / 10000))) (Vec3 0 0 1)
      [mirror_ball] (depth + 1) = None" and "depth < m"
  shows "trace_fuel (Suc n) m INFINITY_cmath (Vec3 0 0 (9999 / 10000)) (Vec3 0 0 (- 1))
      [mirror_ball] depth = None"
  using assms by (simp add: mirror_nearest_down mirror_fields mirror_south Let_def)

lemma mirror_five_frames:
  "trace_fuel 5 MAX_RAY_DEPTH INFINITY_cmath (Vec3 0 0 0) (Vec3 0 0 (- 1)) [mirror_ball] 0 = None"
proof -
  have 0: "trace_fuel 0 5 INFINITY_cmath (Vec3 0 0 (- (9999 / 10000))) (Vec3 0 0 1)
      [mirror_ball] (4 + 1) = None"
    by simp
  have 1: "trace_fuel (Suc 0) 5 INFINITY_cmath (Vec3 0 0 (9999 / 10000)) (Vec3 0 0 (- 1))
      [mirror_ball] (3 + 1) = None"
    using mirror_down_None [OF 0] by simp
  have 2: "trace_fuel (Suc (Suc 0)) 5 INFINITY_cmath (Vec3 0 0 (- (9999 / 10000))) (Vec3 0 0 1)
      [mirror_ball] (2 + 1) = None"
    using mirror_up_None [OF 1] by simp
  have 3: "trace_fuel (Suc (Suc (Suc 0))) 5 INFINITY_cmath (Vec3 0 0 (9999 / 10000))
      (Vec3 0 0 (- 1)) [mirror_ball] (1 + 1) = None"
    using mirror_down_None [OF 2] by simp
  have 4: "trace_fuel (Suc (Suc (Suc (Suc 0)))) 5 INFINITY_cmath (Vec3 0 0 (- (9999 / 10000)))
      (Vec3 0 0 1) [mirror_ball] (0 + 1) = None"
    using mirror_up_None [OF 3] by simp
  have 5: "trace_fuel (Suc (Suc (Suc (Suc (Suc 0))))) 5 INFINITY_cmath (Vec3 0 0 0)
      (Vec3 0 0 (- 1)) [mirror_ball] 0 = None"
    using mirror_start_None [OF 4] by simp
  have "(5 :: nat) = Suc (Suc (Suc (Suc (Suc 0))))" by simp
  with 5 show ?thesis by (simp only: MAX_RAY_DEPTH_def)
qed

theorem trace_total_witness:
  "(0 :: int) \<le> 0 \<and>
   trace_fuel 6 MAX_RAY_DEPTH INFINITY_cmath (Vec3 0 0 0) (Vec3 0 0 (- 1)) [mirror_ball] 0 =
     Some (trace MAX_RAY_DEPTH INFINITY_cmath (Vec3 0 0 0) (Vec3 0 0 (- 1)) [mirror_ball] 0) \<and>
   trace_fuel 5 MAX_RAY_DEPTH INFINITY_cmath (Vec3 0 0 0) (Vec3 0 0 (- 1)) [mirror_ball] 0 = None \<and>
   trace_fuel 9 MAX_RAY_DEPTH INFINITY_cmath (Vec3 0 0 0) (Vec3 0 0 (- 1)) [mirror_ball] (- 3) =
     Some (trace MAX_RAY_DEPTH INFINITY_cmath (Vec3 0 0 0) (Vec3 0 0 (- 1)) [mirror_ball] (- 3))"
proof -
  have "nat (MAX_RAY_DEPTH - (- 3)) < 9" by (simp add: MAX_RAY_DEPTH_def)
  then show ?thesis
    using trace_total [of 0 6 INFINITY_cmath "Vec3 0 0 0" "Vec3 0 0 (- 1)" "[mirror_ball]"]
      trace_total [of "- 3" 9 INFINITY_cmath "Vec3 0 0 0" "Vec3 0 0 (- 1)" "[mirror_ball]"]
      mirror_five_frames
    by simp
qed

section \<open>Opaque scenes\<close>

text \<open>
  C6: when every sphere of the scene has reflectivity 0 and transparency 0, the colour
  \<^verbatim>\<open>trace\<close> returns depends neither on the depth argument nor on the depth limit:
  the limit 50 gives the colour the limit 5 gives, on every ray.
\<close>

theorem trace_depth_irrelevant:
  assumes "\<forall>s \<in> set spheres. reflection s = 0 \<and> transparency s = 0"
  shows "trace 50 infty rayorig raydir spheres depth =
           trace MAX_RAY_DEPTH infty rayorig raydir spheres depth \<and>
         trace limit infty rayorig raydir spheres depth =
           trace limit' infty rayorig raydir spheres depth'"
proof -
  have eq: "trace m infty rayorig raydir spheres k = trace m' infty rayorig raydir spheres k'"
    for m m' k k'
  proof (cases "nearest infty rayorig raydir spheres")
    case None
    then show ?thesis by (simp add: trace.simps)
  next
    case (Some hit)
    then have "snd hit \<in> set spheres" by (rule nearest_mem)
    with assms have "reflection (snd hit) = 0" and "transparency (snd hit) = 0" by auto
    with Some show ?thesis by (simp add: trace.simps Let_def)
  qed
  show ?thesis using eq by blast
qed

theorem trace_depth_irrelevant_witness:
  "reflection unit_ball = 0 \<and> transparency unit_ball = 0 \<and>
   reflection lamp = 0 \<and> transparency lamp = 0 \<and>
   trace 50 INFINITY_cmath (Vec3 0 0 2) (Vec3 0 0 (- 1)) [unit_ball, lamp] 49 =
     trace MAX_RAY_DEPTH INFINITY_cmath (Vec3 0 0 2) (Vec3 0 0 (- 1)) [unit_ball, lamp] 49 \<and>
   trace 50 INFINITY_cmath (Vec3 0 0 2) (Vec3 0 0 (- 1)) [unit_ball, lamp] 49 =
     trace 5 INFINITY_cmath (Vec3 0 0 2) (Vec3 0 0 (- 1)) [unit_ball, lamp] 0"
proof -
  have a: "reflection unit_ball = 0" "transparency unit_ball = 0"
      "reflection lamp = 0" "transparency lamp = 0"
    by (simp_all add: unit_ball_def lamp_def Sphere_plain_def)
  then have h: "\<forall>s \<in> set [unit_ball, lamp]. reflection s = 0 \<and> transparency s = 0"
    by simp
  show ?thesis
    using a
      trace_depth_irrelevant [OF h, of INFINITY_cmath "Vec3 0 0 2" "Vec3 0 0 (- 1)" 49 50 5 0]
    by blast
qed

section \<open>Direct illumination\<close>

lemma shadow_loop_find:
  "shadow_loop spheres i orig dir js =
     List.find (\<lambda>j. i \<noteq> j \<and> intersect (spheres ! j) orig dir \<noteq> None) js"
proof (induction js)
  case Nil
  show ?case by (simp only: shadow_loop.simps find.simps)
next
  case (Cons a js)
  show ?case by (simp only: shadow_loop.simps find.simps Cons.IH)
qed

lemma find_upt_Some:
  "List.find P [0..<n] = Some j \<longleftrightarrow> j < n \<and> P j \<and> (\<forall>k<j. \<not> P k)"
proof -
  have nth: "[0..<n] ! a = a" if "a < n" for a
    using that by simp
  have "List.find P [0..<n] = Some j \<longleftrightarrow>
      (\<exists>a<n. P ([0..<n] ! a) \<and> j = [0..<n] ! a \<and> (\<forall>b<a. \<not> P ([0..<n] ! b)))"
    by (simp only: find_Some_iff length_upt diff_zero)
  also have "\<dots> \<longleftrightarrow> (\<exists>a<n. P a \<and> j = a \<and> (\<forall>b<a. \<not> P b))"
  proof (intro ex_cong1 conj_cong refl)
    fix a assume "a < n"
    then show "P ([0..<n] ! a) = P a" by (simp only: nth)
    show "(j = [0..<n] ! a) = (j = a)" using \<open>a < n\<close> by (simp only: nth)
    show "(\<forall>b<a. \<not> P ([0..<n] ! b)) = (\<forall>b<a. \<not> P b)"
    proof (intro all_cong1 imp_cong refl)
      fix b assume "b < a"
      with \<open>a < n\<close> have "b < n" by linarith
      then show "(\<not> P ([0..<n] ! b)) = (\<not> P b)" by (simp only: nth)
    qed
  qed
  also have "\<dots> \<longleftrightarrow> j < n \<and> P j \<and> (\<forall>k<j. \<not> P k)"
    by blast
  finally show ?thesis .
qed

lemma find_upt_None: "List.find P [0..<n] = None \<longleftrightarrow> (\<forall>j<n. \<not> P j)"
  by (auto simp add: find_None_iff)

lemma shadow_loop_Some_iff:
  "shadow_loop spheres i orig dir [0..<n] = Some j \<longleftrightarrow>
     j < n \<and> j \<noteq> i \<and> intersect (spheres ! j) orig dir \<noteq> None \<and>
     (\<forall>k<j. k \<noteq> i \<longrightarrow> intersect (spheres ! k) orig dir = None)"
proof -
  let ?P = "\<lambda>j. i \<noteq> j \<and> intersect (spheres ! j) orig dir \<noteq> None"
  have "shadow_loop spheres i orig dir [0..<n] = Some j \<longleftrightarrow>
      j < n \<and> ?P j \<and> (\<forall>k<j. \<not> ?P k)"
    by (simp only: shadow_loop_find find_upt_Some)
  also have "\<dots> \<longleftrightarrow> j < n \<and> j \<noteq> i \<and> intersect (spheres ! j) orig dir \<noteq> None \<and>
     (\<forall>k<j. k \<noteq> i \<longrightarrow> intersect (spheres ! k) orig dir = None)"
    by (auto simp del: not_None_eq)
  finally show ?thesis .
qed

lemma shadow_loop_None_iff:
  "shadow_loop spheres i orig dir [0..<n] = None \<longleftrightarrow>
     (\<forall>j<n. j \<noteq> i \<longrightarrow> intersect (spheres ! j) orig dir = None)"
proof -
  let ?P = "\<lambda>j. i \<noteq> j \<and> intersect (spheres ! j) orig dir \<noteq> None"
  have "shadow_loop spheres i orig dir [0..<n] = None \<longleftrightarrow> (\<forall>j<n. \<not> ?P j)"
    by (simp only: shadow_loop_find find_upt_None)
  also have "\<dots> \<longleftrightarrow> (\<forall>j<n. j \<noteq> i \<longrightarrow> intersect (spheres ! j) orig dir = None)"
    by (auto simp del: not_None_eq)
  finally show ?thesis .
qed

text \<open>
  C10: the shadow loop for the light \<open>i\<close> leaves out the index \<open>i\<close> only. It ends at
  \<open>j\<close> exactly when \<open>j\<close> is the first index other than \<open>i\<close> whose sphere, the
  shaded one included, intersects the shadow ray, and runs to the end exactly when there
  is none; the transmission is 0 when some sphere other than the light intersects the
  biased shadow ray and 1 otherwise.
\<close>

theorem shadow_test:
  "(shadow_loop spheres i orig dir [0..<length spheres] = Some j \<longleftrightarrow>
      j < length spheres \<and> j \<noteq> i \<and> intersect (spheres ! j) orig dir \<noteq> None \<and>
      (\<forall>k<j. k \<noteq> i \<longrightarrow> intersect (spheres ! k) orig dir = None)) \<and>
   (shadow_loop spheres i orig dir [0..<length spheres] = None \<longleftrightarrow>
      (\<forall>j<length spheres. j \<noteq> i \<longrightarrow> intersect (spheres ! j) orig dir = None)) \<and>
   transmission spheres i phit nhit b =
     (if \<exists>j<length spheres. j \<noteq> i \<and>
           intersect (spheres ! j) (vadd phit (vscale nhit b))
             (normalize (vsub (center (spheres ! i)) phit)) \<noteq> None
      then Vec3 0 0 0 else Vec3 1 1 1)"
proof (intro conjI)
  show "shadow_loop spheres i orig dir [0..<length spheres] = Some j \<longleftrightarrow>
      j < length spheres \<and> j \<noteq> i \<and> intersect (spheres ! j) orig dir \<noteq> None \<and>
      (\<forall>k<j. k \<noteq> i \<longrightarrow> intersect (spheres ! k) orig dir = None)"
    by (rule shadow_loop_Some_iff)
  show "shadow_loop spheres i orig dir [0..<length spheres] = None \<longleftrightarrow>
      (\<forall>j<length spheres. j \<noteq> i \<longrightarrow> intersect (spheres ! j) orig dir = None)"
    by (rule shadow_loop_None_iff)
  define so where "so = vadd phit (vscale nhit b)"
  define L where "L = normalize (vsub (center (spheres ! i)) phit)"
  have tr: "transmission spheres i phit nhit b =
      transmission_of (shadow_loop spheres i so L [0..<length spheres])"
    by (simp add: transmission_def light_direction_def so_def L_def)
  have "transmission spheres i phit nhit b =
     (if \<exists>j<length spheres. j \<noteq> i \<and> intersect (spheres ! j) so L \<noteq> None
      then Vec3 0 0 0 else Vec3 1 1 1)"
  proof (cases "shadow_loop spheres i so L [0..<length spheres]")
    case None
    then have "\<forall>j<length spheres. j \<noteq> i \<longrightarrow> intersect (spheres ! j) so L = None"
      by (rule iffD1 [OF shadow_loop_None_iff])
    then have "\<not> (\<exists>j<length spheres. j \<noteq> i \<and> intersect (spheres ! j) so L \<noteq> None)"
      by (auto simp del: not_None_eq)
    then show ?thesis
      by (simp only: tr None transmission_of_def Vec3_all_def option.case if_False)
  next
    case (Some j)
    then have "j < length spheres \<and> j \<noteq> i \<and> intersect (spheres ! j) so L \<noteq> None \<and>
        (\<forall>k<j. k \<noteq> i \<longrightarrow> intersect (spheres ! k) so L = None)"
      by (rule iffD1 [OF shadow_loop_Some_iff])
    then have "\<exists>j<length spheres. j \<noteq> i \<and> intersect (spheres ! j) so L \<noteq> None"
      by (auto simp del: not_None_eq)
    then show ?thesis
      by (simp only: tr Some transmission_of_def Vec3_all_def option.case if_True)
  qed
  then show "transmission spheres i phit nhit b =
     (if \<exists>j<length spheres. j \<noteq> i \<and>
           intersect (spheres ! j) (vadd phit (vscale nhit b))
             (normalize (vsub (center (spheres ! i)) phit)) \<noteq> None
      then Vec3 0 0 0 else Vec3 1 1 1)"
    by (simp only: so_def L_def)
qed

text \<open>The far side of the unit sphere is in the sphere's own shadow.\<close>

lemma sqrt_16: "sqrt 16 = 4"
  by (rule real_sqrt_unique) simp_all

lemma ex_far_side_dir: "normalize (vsub (Vec3 0 0 3) (Vec3 0 0 (- 1))) = Vec3 0 0 1"
  by (simp add: vsub_def normalize_def length2_def Let_def sqrt_16)

lemma ex_far_side_origin:
  "vadd (Vec3 0 0 (- 1)) (vscale (Vec3 0 0 (- 1)) bias) = Vec3 0 0 (- (10001 / 10000))"
  by (simp add: vadd_def vscale_def bias_def)

lemma ex_far_side_occluded:
  "intersect unit_ball (Vec3 0 0 (- (10001 / 10000))) (Vec3 0 0 1) = Some (1 / 10000, 20001 / 10000)"
  by (simp add: intersect_def unit_ball_def Sphere_plain_def vsub_def dot_def Let_def)

theorem shadow_test_witness:
  "shadow_loop [unit_ball, lamp] 1 (Vec3 0 0 (- (10001 / 10000))) (Vec3 0 0 1)
     [0..<length [unit_ball, lamp]] = Some 0 \<and>
   transmission [unit_ball, lamp] 1 (Vec3 0 0 (- 1)) (Vec3 0 0 (- 1)) bias = Vec3 0 0 0 \<and>
   shadow_loop [unit_ball, lamp] 1 (Vec3 0 0 (10001 / 10000)) (Vec3 0 0 1)
     [0..<length [unit_ball, lamp]] = None \<and>
   transmission [unit_ball, lamp] 1 (Vec3 0 0 1) (Vec3 0 0 1) bias = Vec3 1 1 1"
proof -
  have c: "center ([unit_ball, lamp] ! 1) = Vec3 0 0 3"
    by (simp add: lamp_def Sphere_plain_def)
  have far: "intersect ([unit_ball, lamp] ! 0) (Vec3 0 0 (- (10001 / 10000))) (Vec3 0 0 1) \<noteq> None"
    by (simp add: ex_far_side_occluded)
  have near: "intersect ([unit_ball, lamp] ! j) (Vec3 0 0 (10001 / 10000)) (Vec3 0 0 1) = None"
    if "j < length [unit_ball, lamp]" "j \<noteq> 1" for j
  proof -
    from that have "j = 0" by simp
    then show ?thesis by (simp add: ex_unoccluded)
  qed
  note A = shadow_test [of "[unit_ball, lamp]" 1 "Vec3 0 0 (- (10001 / 10000))" "Vec3 0 0 1" 0
      "Vec3 0 0 (- 1)" "Vec3 0 0 (- 1)" bias]
  note B = shadow_test [of "[unit_ball, lamp]" 1 "Vec3 0 0 (10001 / 10000)" "Vec3 0 0 1" 0
      "Vec3 0 0 1" "Vec3 0 0 1" bias]
  have 1: "shadow_loop [unit_ball, lamp] 1 (Vec3 0 0 (- (10001 / 10000))) (Vec3 0 0 1)
     [0..<length [unit_ball, lamp]] = Some 0"
  proof (rule iffD2 [OF conjunct1 [OF A]], intro conjI allI impI)
    show "0 < length [unit_ball, lamp]" by simp
    show "(0 :: nat) \<noteq> 1" by simp
    show "intersect ([unit_ball, lamp] ! 0) (Vec3 0 0 (- (10001 / 10000))) (Vec3 0 0 1) \<noteq> None"
      by (rule far)
    fix k :: nat
    assume "k < 0"
    then show "intersect ([unit_ball, lamp] ! k) (Vec3 0 0 (- (10001 / 10000))) (Vec3 0 0 1) = None"
      by simp
  qed
  have "\<exists>j<length [unit_ball, lamp]. j \<noteq> 1 \<and>
      intersect ([unit_ball, lamp] ! j) (vadd (Vec3 0 0 (- 1)) (vscale (Vec3 0 0 (- 1)) bias))
        (normalize (vsub (center ([unit_ball, lamp] ! 1)) (Vec3 0 0 (- 1)))) \<noteq> None"
  proof (intro exI [of _ 0] conjI)
    show "0 < length [unit_ball, lamp]" by simp
    show "(0 :: nat) \<noteq> 1" by simp
    show "intersect ([unit_ball, lamp] ! 0) (vadd (Vec3 0 0 (- 1)) (vscale (Vec3 0 0 (- 1)) bias))
        (normalize (vsub (center ([unit_ball, lamp] ! 1)) (Vec3 0 0 (- 1)))) \<noteq> None"
      unfolding c ex_far_side_dir ex_far_side_origin by (rule far)
  qed
  with A have 2: "transmission [unit_ball, lamp] 1 (Vec3 0 0 (- 1)) (Vec3 0 0 (- 1)) bias = Vec3 0 0 0"
    by (simp only: if_True)
  have 3: "shadow_loop [unit_ball, lamp] 1 (Vec3 0 0 (10001 / 10000)) (Vec3 0 0 1)
     [0..<length [unit_ball, lamp]] = None"
  proof (rule iffD2 [OF conjunct1 [OF conjunct2 [OF B]]], intro allI impI)
    fix j :: nat
    assume "j < length [unit_ball, lamp]" and "j \<noteq> 1"
    then show "intersect ([unit_ball, lamp] ! j) (Vec3 0 0 (10001 / 10000)) (Vec3 0 0 1) = None"
      by (rule near)
  qed
  have "\<not> (\<exists>j<length [unit_ball, lamp]. j \<noteq> 1 \<and>
      intersect ([unit_ball, lamp] ! j) (vadd (Vec3 0 0 1) (vscale (Vec3 0 0 1) bias))
        (normalize (vsub (center ([unit_ball, lamp] ! 1)) (Vec3 0 0 1))) \<noteq> None)"
  proof
    assume "\<exists>j<length [unit_ball, lamp]. j \<noteq> 1 \<and>
      intersect ([unit_ball, lamp] ! j) (vadd (Vec3 0 0 1) (vscale (Vec3 0 0 1) bias))
        (normalize (vsub (center ([unit_ball, lamp] ! 1)) (Vec3 0 0 1))) \<noteq> None"
    then obtain j where j: "j < length [unit_ball, lamp]" "j \<noteq> 1"
      "intersect ([unit_ball, lamp] ! j) (vadd (Vec3 0 0 1) (vscale (Vec3 0 0 1) bias))
        (normalize (vsub (center ([unit_ball, lamp] ! 1)) (Vec3 0 0 1))) \<noteq> None"
      by blast
    from j(3) have "intersect ([unit_ball, lamp] ! j) (Vec3 0 0 (10001 / 10000)) (Vec3 0 0 1) \<noteq> None"
      unfolding c ex_light_dir ex_shadow_origin .
    with near [OF j(1,2)] show False by (rule notE [rotated])
  qed
  with B have 4: "transmission [unit_ball, lamp] 1 (Vec3 0 0 1) (Vec3 0 0 1) bias = Vec3 1 1 1"
    by (simp only: if_False)
  show ?thesis using 1 2 3 4 by (intro conjI)
qed

lemma foldl_light_step:
  "foldl (light_step spheres sphere phit nhit b) color js =
     foldl vadd color
       (map (light_term spheres sphere phit nhit b)
          (filter (\<lambda>i. vx (emissionColor (spheres ! i)) > 0) js))"
  by (induction js arbitrary: color) (simp_all add: light_step_def)

text \<open>
  C1, as amended: the spheres treated as lights are exactly those whose emission colour
  has a positive first channel. A round of the loop adds the term of line 190 for such a
  sphere and leaves the colour as it is for any other, so the direct illumination is the
  sum, in scene order, of the terms of these spheres, each computed with the direction
  from the hit point to the sphere's centre.
\<close>

theorem lights_by_first_channel:
  "direct_light spheres sphere phit nhit b =
     foldl vadd (Vec3_all 0)
       (map (light_term spheres sphere phit nhit b)
          (filter (\<lambda>i. vx (emissionColor (spheres ! i)) > 0) [0..<length spheres])) \<and>
   light_term spheres sphere phit nhit b i =
     vmul
       (vscale (vmul (getColor sphere phit) (transmission spheres i phit nhit b))
          (max 0 (dot nhit (normalize (vsub (center (spheres ! i)) phit)))))
       (emissionColor (spheres ! i)) \<and>
   (vx (emissionColor (spheres ! i)) > 0 \<longrightarrow>
      light_step spheres sphere phit nhit b color i =
        vadd color (light_term spheres sphere phit nhit b i)) \<and>
   (\<not> vx (emissionColor (spheres ! i)) > 0 \<longrightarrow>
      light_step spheres sphere phit nhit b color i = color)"
  by (simp add: direct_light_def foldl_light_step light_term_def light_direction_def
      light_step_def)

lemma upt_two: "[0..<length [a, b]] = [0, 1]"
  by (simp add: upt_rec)

lemma ex_light_direction:
  "center l = Vec3 0 0 3 \<Longrightarrow> light_direction [unit_ball, l] (Suc 0) (Vec3 0 0 1) = Vec3 0 0 1"
  by (simp add: light_direction_def ex_light_dir)

lemma ex_transmission:
  assumes "center l = Vec3 0 0 3"
  shows "transmission [unit_ball, l] (Suc 0) (Vec3 0 0 1) (Vec3 0 0 1) bias = Vec3 1 1 1"
  by (simp add: transmission_def upt_two ex_light_direction [OF assms] ex_shadow_origin
      ex_unoccluded transmission_of_def Vec3_all_def)

lemma ex_light_term:
  assumes "center l = Vec3 0 0 3"
  shows "light_term [unit_ball, l] unit_ball (Vec3 0 0 1) (Vec3 0 0 1) bias (Suc 0) =
    emissionColor l"
proof -
  have g: "getColor unit_ball (Vec3 0 0 1) = Vec3 1 1 1"
    by (simp add: getColor_def getColor_checked_def unit_ball_def Sphere_plain_def)
  show ?thesis
    by (simp add: light_term_def ex_transmission [OF assms] ex_light_direction [OF assms] g
        vmul_def vscale_def dot_def)
qed

theorem lights_by_first_channel_witness:
  "vx (emissionColor lamp) > 0 \<and> \<not> vx (emissionColor unit_ball) > 0 \<and>
   direct_light [unit_ball, lamp] unit_ball (Vec3 0 0 1) (Vec3 0 0 1) bias = Vec3 3 3 3"
proof -
  have c: "center lamp = Vec3 0 0 3" and e: "emissionColor lamp = Vec3 3 3 3"
    and u: "emissionColor unit_ball = Vec3 0 0 0"
    by (simp_all add: lamp_def unit_ball_def Sphere_plain_def)
  have "direct_light [unit_ball, lamp] unit_ball (Vec3 0 0 1) (Vec3 0 0 1) bias =
      foldl vadd (Vec3_all 0)
       (map (light_term [unit_ball, lamp] unit_ball (Vec3 0 0 1) (Vec3 0 0 1) bias)
          (filter (\<lambda>i. vx (emissionColor ([unit_ball, lamp] ! i)) > 0)
             [0..<length [unit_ball, lamp]]))"
    using lights_by_first_channel [of "[unit_ball, lamp]" unit_ball "Vec3 0 0 1" "Vec3 0 0 1" bias 1]
    by (rule conjunct1)
  also have "\<dots> = Vec3 3 3 3"
    by (simp add: upt_two u e ex_light_term [OF c] vadd_def Vec3_all_def)
  finally show ?thesis by (simp add: e u)
qed

text \<open>
  C1 as stated fails: the sphere \<open>green_lamp\<close> has a positive emission component, the
  second, and straight above the hit point it would add \<open>(0, 1, 0)\<close> to the colour of
  the white sphere; the loop of the source skips it, and \<^verbatim>\<open>trace\<close> returns black.
\<close>

theorem positive_component_counterexample:
  "has_positive_component (emissionColor green_lamp) \<and>
   direct_light_claimed [unit_ball, green_lamp] unit_ball (Vec3 0 0 1) (Vec3 0 0 1) bias
     = Vec3 0 1 0 \<and>
   direct_light [unit_ball, green_lamp] unit_ball (Vec3 0 0 1) (Vec3 0 0 1) bias = Vec3 0 0 0 \<and>
   trace MAX_RAY_DEPTH INFINITY_cmath (Vec3 0 0 2) (Vec3 0 0 (- 1)) [unit_ball, green_lamp] 0
     = Vec3 0 0 0"
proof -
  have c: "center green_lamp = Vec3 0 0 3" and e: "emissionColor green_lamp = Vec3 0 1 0"
    and u: "emissionColor unit_ball = Vec3 0 0 0"
    and o: "transparency unit_ball = 0" "reflection unit_ball = 0"
    by (simp_all add: green_lamp_def unit_ball_def Sphere_plain_def)
  have 1: "has_positive_component (emissionColor green_lamp)"
    by (simp add: e has_positive_component_def)
  have 2: "direct_light_claimed [unit_ball, green_lamp] unit_ball (Vec3 0 0 1) (Vec3 0 0 1) bias
     = Vec3 0 1 0"
    by (simp add: direct_light_claimed_def upt_two has_positive_component_def u e
        ex_light_term [OF c] vadd_def Vec3_all_def)
  have 3: "direct_light [unit_ball, green_lamp] unit_ball (Vec3 0 0 1) (Vec3 0 0 1) bias
     = Vec3 0 0 0"
    by (simp add: direct_light_def upt_two light_step_def u e Vec3_all_def)
  have m: "intersect green_lamp (Vec3 0 0 2) (Vec3 0 0 (- 1)) = None"
    by (simp add: intersect_def green_lamp_def Sphere_plain_def vsub_def dot_def Let_def)
  have n: "nearest INFINITY_cmath (Vec3 0 0 2) (Vec3 0 0 (- 1)) [unit_ball, green_lamp]
      = Some (1, unit_ball)"
    by (simp add: nearest_def nearest_step_def ex_ball_hit m tnear_of_def INFINITY_cmath_def)
  have 4: "trace MAX_RAY_DEPTH INFINITY_cmath (Vec3 0 0 2) (Vec3 0 0 (- 1))
      [unit_ball, green_lamp] 0 = Vec3 0 0 0"
    by (subst trace.simps)
      (simp add: n o ex_hit_point ex_hit_normal 3 u vadd_def Let_def)
  show ?thesis using 1 2 3 4 by (intro conjI)
qed


















section \<open>Texture lookup\<close>

lemma atan2_range: "- pi \<le> atan2 b a \<and> atan2 b a \<le> pi"
proof -
  have t: "- (pi / 2) < arctan (b / a)" "arctan (b / a) < pi / 2"
    using arctan_bounded [of "b / a"] by simp_all
  have p: "0 < pi" by simp
  consider "a > 0" | "a < 0" "b \<ge> 0" | "a < 0" "b < 0" | "a = 0"
    by linarith
  then show ?thesis
  proof cases
    case 1
    then have "atan2 b a = arctan (b / a)" by (simp add: atan2_def)
    then show ?thesis using t p by linarith
  next
    case 2
    then have "b / a \<le> 0" by (simp add: divide_nonneg_neg)
    then have "arctan (b / a) \<le> 0" by (simp add: arctan_le_zero_iff)
    moreover have "atan2 b a = arctan (b / a) + pi" using 2 by (simp add: atan2_def)
    ultimately show ?thesis using t p by linarith
  next
    case 3
    then have "0 < b / a" by (simp add: divide_neg_neg)
    then have "0 < arctan (b / a)" by (simp add: zero_less_arctan_iff)
    moreover have "atan2 b a = arctan (b / a) - pi" using 3 by (simp add: atan2_def)
    ultimately show ?thesis using t p by linarith
  next
    case 4
    then have "atan2 b a = pi / 2 \<or> atan2 b a = - (pi / 2) \<or> atan2 b a = 0"
      by (simp add: atan2_def)
    then show ?thesis using p by linarith
  qed
qed

lemma texture_u_range:
  "fst (texture_uv s phit) = Some u \<Longrightarrow> 0 \<le> u \<and> u \<le> 1"
proof -
  assume "fst (texture_uv s phit) = Some u"
  then have u: "u = atan2 (vz (vsub phit (center s))) (vx (vsub phit (center s))) / (2 * pi) + 1 / 2"
    by (simp add: texture_uv_def Let_def)
  define t where "t = atan2 (vz (vsub phit (center s))) (vx (vsub phit (center s)))"
  have r: "- pi \<le> t" "t \<le> pi" using atan2_range by (simp_all add: t_def)
  have p: "0 < pi" by simp
  have "- (1 / 2) \<le> t / (2 * pi)"
    using r(1) p by (simp add: field_simps)
  moreover have "t / (2 * pi) \<le> 1 / 2"
    using r(2) p by (simp add: field_simps)
  moreover have "u = t / (2 * pi) + 1 / 2" using u by (simp add: t_def)
  ultimately show ?thesis by linarith
qed

lemma texture_v_range:
  "snd (texture_uv s phit) = Some v \<Longrightarrow> 0 \<le> v \<and> v \<le> 1"
proof -
  assume a: "snd (texture_uv s phit) = Some v"
  define q where "q = vy (vsub phit (center s)) / radius s"
  from a have "radius s \<noteq> 0" and m: "map_option (\<lambda>a. a / pi) (acos_float q) = Some v"
    by (simp_all add: texture_uv_def Let_def q_def split: if_splits)
  from m have q: "- 1 \<le> q" "q \<le> 1" and v: "v = arccos q / pi"
    by (auto simp add: acos_float_def split: if_splits)
  have "0 \<le> arccos q" "arccos q \<le> pi"
    using q by (simp_all add: arccos_lbound arccos_ubound)
  then show ?thesis using v by simp
qed

lemma texture_v_NaN:
  "snd (texture_uv s phit) = None \<longleftrightarrow>
     radius s = 0 \<or> vy (vsub phit (center s)) / radius s < - 1 \<or>
     1 < vy (vsub phit (center s)) / radius s"
  by (auto simp add: texture_uv_def Let_def acos_float_def)

lemma pixel_index_clamped:
  "1 \<le> n \<Longrightarrow> pixel_index n u = Some k \<Longrightarrow> 0 \<le> k \<and> k < n"
  by (auto simp add: pixel_index_def split: option.splits)

lemma pixel_index_NaN: "pixel_index n None = None"
  by (simp add: pixel_index_def float_to_int_def)

lemma pixel_index_defined:
  assumes "1 \<le> n" and "n \<le> INT_MAX" and "0 \<le> u" and "u \<le> 1"
  shows "\<exists>k. pixel_index n (Some u) = Some k \<and> 0 \<le> k \<and> k < n"
proof -
  have a: "0 \<le> u * real_of_int n" using assms by simp
  have "u * real_of_int n \<le> real_of_int n"
    using assms by (simp add: mult_left_le_one_le)
  then have "\<lfloor>u * real_of_int n\<rfloor> \<le> n" by (simp add: floor_le_iff)
  moreover have "0 \<le> \<lfloor>u * real_of_int n\<rfloor>" using a by simp
  moreover have "n \<le> 2147483647" using assms(2) by (simp add: INT_MAX_def)
  ultimately have "- 2147483648 \<le> \<lfloor>u * real_of_int n\<rfloor>"
      "\<lfloor>u * real_of_int n\<rfloor> \<le> 2147483647"
    by linarith+
  then have "float_to_int (Some (u * real_of_int n)) = Some \<lfloor>u * real_of_int n\<rfloor>"
    using a unfolding float_to_int_def INT_MIN_def INT_MAX_def Let_def by simp
  then have "pixel_index n (Some u) = Some (min (n - 1) (max 0 \<lfloor>u * real_of_int n\<rfloor>))"
    by (simp add: pixel_index_def)
  then show ?thesis using assms(1) by simp
qed

lemma texture_loaded_row:
  assumes "texture_loaded s" and "0 \<le> row" and "row < textureHeight s"
  shows "nat row < length (texture s) \<and> int (length (texture s ! nat row)) = textureWidth s"
proof -
  from assms(1) have "int (length (texture s)) = textureHeight s"
    by (simp add: texture_loaded_def)
  with assms(2,3) have r: "nat row < length (texture s)"
    by linarith
  moreover from assms(1) have "\<forall>k<length (texture s). int (length (texture s ! k)) = textureWidth s"
    by (simp add: texture_loaded_def list_all_length)
  ultimately show ?thesis by blast
qed

text \<open>
  Whenever both conversions are defined the clamp does its work: the column and the row
  are within the texture, and the read of a loaded texture is within its rows and
  columns.
\<close>

lemma texel_xy_clamped:
  assumes "texel_xy s phit = Some (x, y)" and "1 \<le> textureWidth s" and "1 \<le> textureHeight s"
  shows "0 \<le> x \<and> x < textureWidth s \<and> 0 \<le> y \<and> y < textureHeight s"
proof -
  from assms(1) have "pixel_index (textureWidth s) (fst (texture_uv s phit)) = Some x"
      and "pixel_index (textureHeight s) (snd (texture_uv s phit)) = Some y"
    by (simp_all add: texel_xy_def Let_def split: option.splits)
  then show ?thesis
    using pixel_index_clamped [OF assms(2)] pixel_index_clamped [OF assms(3)] by blast
qed

lemma getColor_read_in_range:
  assumes "texel_xy s phit = Some (x, y)" and "1 \<le> textureWidth s" and "1 \<le> textureHeight s"
    and "texture_loaded s" and "texture s \<noteq> []"
  shows "getColor_checked s phit = Inr (texture s ! nat y ! nat x)"
proof -
  have b: "0 \<le> x \<and> x < textureWidth s \<and> 0 \<le> y \<and> y < textureHeight s"
    using texel_xy_clamped [OF assms(1,2,3)] .
  then have "nat y < length (texture s) \<and> int (length (texture s ! nat y)) = textureWidth s"
    using texture_loaded_row [OF assms(4), of y] by blast
  moreover from this b have "nat x < length (texture s ! nat y)" by linarith
  ultimately show ?thesis
    using b assms(1,5) by (simp add: getColor_checked_def Let_def)
qed

text \<open>
  For a sphere of radius other than 0 and a point with \<open>|hit.y / radius| \<le> 1\<close>, as is
  every point of the sphere's surface, both conversions are defined.
\<close>

lemma getColor_defined:
  assumes "texture s \<noteq> []" and "texture_loaded s"
    and "1 \<le> textureWidth s" and "textureWidth s \<le> INT_MAX"
    and "1 \<le> textureHeight s" and "textureHeight s \<le> INT_MAX"
    and "radius s \<noteq> 0"
    and "- 1 \<le> vy (vsub phit (center s)) / radius s"
    and "vy (vsub phit (center s)) / radius s \<le> 1"
  shows "\<exists>x y. texel_xy s phit = Some (x, y) \<and>
           0 \<le> x \<and> x < textureWidth s \<and> 0 \<le> y \<and> y < textureHeight s \<and>
           getColor_checked s phit = Inr (texture s ! nat y ! nat x)"
proof -
  obtain u where u: "fst (texture_uv s phit) = Some u"
    by (simp add: texture_uv_def Let_def)
  obtain v where v: "snd (texture_uv s phit) = Some v"
    using assms(7,8,9) by (simp add: texture_uv_def Let_def acos_float_def)
  obtain x where x: "pixel_index (textureWidth s) (Some u) = Some x"
    using pixel_index_defined [OF assms(3,4)] texture_u_range [OF u] by blast
  obtain y where y: "pixel_index (textureHeight s) (Some v) = Some y"
    using pixel_index_defined [OF assms(5,6)] texture_v_range [OF v] by blast
  have t: "texel_xy s phit = Some (x, y)"
    by (simp add: texel_xy_def Let_def u v x y)
  show ?thesis
    using t texel_xy_clamped [OF t assms(3,5)] getColor_read_in_range [OF t assms(3,5,2,1)]
    by blast
qed

text \<open>Where \<^verbatim>\<open>v\<close> is NaN the conversion of line 118 is undefined.\<close>

lemma getColor_NaN:
  assumes "texture s \<noteq> []"
    and "radius s = 0 \<or> vy (vsub phit (center s)) / radius s < - 1 \<or>
         1 < vy (vsub phit (center s)) / radius s"
  shows "getColor_checked s phit = Inl ConversionUndefined"
proof -
  have "snd (texture_uv s phit) = None"
    using assms(2) by (simp only: texture_v_NaN)
  then have "texel_xy s phit = None"
    by (simp add: texel_xy_def Let_def pixel_index_NaN split: option.splits)
  then show ?thesis using assms(1) by (simp add: getColor_checked_def)
qed

lemma globe_fields:
  "texture globe = checker" "textureWidth globe = 3" "textureHeight globe = 2"
  "center globe = Vec3 0 0 0" "radius globe = 1"
  by (simp_all add: globe_def Sphere_textured_def)

lemma globe_loaded: "texture globe \<noteq> [] \<and> texture_loaded globe"
  by (simp add: texture_loaded_def globe_fields checker_def)

lemma globe_equator: "getColor_checked globe (Vec3 1 0 0) = Inr (Vec3 0 1 0)"
proof -
  have "texture_uv globe (Vec3 1 0 0) = (Some (1 / 2), Some (1 / 2))"
    by (simp add: texture_uv_def globe_fields vsub_def atan2_def acos_float_def Let_def)
  then have "texel_xy globe (Vec3 1 0 0) = Some (1, 1)"
    by (simp add: texel_xy_def Let_def pixel_index_def float_to_int_def globe_fields
        INT_MIN_def INT_MAX_def)
  then show ?thesis
    by (simp add: getColor_checked_def globe_fields checker_def)
qed

text \<open>
  C8 does not hold of the source for every point. At a point whose height over the
  centre exceeds the radius, here by one unit in the last place of a \<^verbatim>\<open>float\<close>, as
  the rounded hit points of \<^verbatim>\<open>trace\<close> near a pole are, \<^verbatim>\<open>acos\<close> returns NaN,
  \<^verbatim>\<open>v\<close> is NaN, and the conversion of line 118 is undefined before the clamp is
  applied: for this sphere with a loaded texture of width 3 and height 2 no row is
  computed, and the result of \<^verbatim>\<open>getColor\<close> is the undefined conversion.
\<close>

theorem getColor_conversion_undefined:
  "texture globe \<noteq> [] \<and> texture_loaded globe \<and>
   1 \<le> textureWidth globe \<and> 1 \<le> textureHeight globe \<and>
   texture_uv globe (Vec3 0 (8388609 / 8388608) 0) = (Some (1 / 2), None) \<and>
   texel_xy globe (Vec3 0 (8388609 / 8388608) 0) = None \<and>
   getColor_checked globe (Vec3 0 (8388609 / 8388608) 0) = Inl ConversionUndefined"
proof -
  have uv: "texture_uv globe (Vec3 0 (8388609 / 8388608) 0) = (Some (1 / 2), None)"
    by (simp add: texture_uv_def globe_fields vsub_def atan2_def acos_float_def Let_def)
  then have xy: "texel_xy globe (Vec3 0 (8388609 / 8388608) 0) = None"
    by (simp add: texel_xy_def Let_def pixel_index_NaN split: option.splits)
  then have "getColor_checked globe (Vec3 0 (8388609 / 8388608) 0) = Inl ConversionUndefined"
    using globe_loaded by (simp add: getColor_checked_def)
  with uv xy globe_loaded show ?thesis by (simp add: globe_fields)
qed

end
